theory Spec2Isabelle
  imports Main "HOL-Library.Word"
begin

section \<open>Scalar types and errors\<close>

type_synonym uint8_t = "8 word"
type_synonym int8_t = "8 word" \<comment> \<open>read as two's complement with \<open>sint\<close>\<close>
type_synonym uint32_t = "32 word"
type_synonym int32_t = "32 word"

text \<open>
  The tags of the \<open>DataType\<close> enum that the two source files name. The enum itself is
  declared in a header outside the two files; every tag of it that they do not name
  is \<open>OtherDataType t\<close>.
\<close>

datatype DataType =
  Int32 | Uint32 | Float32 | Int64 | Float64 | GeoPoint | OtherDataType nat

text \<open>
  \<open>std::invalid_argument\<close> with its message; \<open>CudaError\<close> is whatever
  \<open>CheckCUDAError\<close> throws when the CUDA runtime reports a failure.
\<close>

datatype error = InvalidArgument string | CudaError string

fun what :: "error \<Rightarrow> string" where
  "what (InvalidArgument s) = s"
| "what (CudaError s) = s"

section \<open>Measure output dispatch (query/measure_transform.cu)\<close>

record MeasureOutputVector =
  Values :: "uint8_t list"
  DataType :: DataType
  AggFunc :: nat

text \<open>The element type the raw \<open>Values\<close> pointer is reinterpreted as.\<close>

datatype value_type = int32_t | uint32_t | float_t | int64_t | double_t

text \<open>
  What \<open>make_measure_output_iterator\<close> is given: the typed value pointer, the index
  vector, the base counts and the aggregation function.
\<close>

datatype MeasureOutputIterator =
  make_measure_output_iterator value_type "uint8_t list" "uint32_t list" "uint32_t list" nat

text \<open>
  The members of \<open>OutputVectorBinder<NInput, FunctorType>\<close> that
  \<open>transformMeasureOutput\<close> reads. \<open>NInput\<close> is the template argument (1 for
  \<open>UnaryFunctorType\<close>, 2 for \<open>BinaryFunctorType\<close> in the explicit instantiations).
\<close>

record OutputVectorBinder =
  NInput :: nat
  indexVector :: "uint32_t list"
  baseCounts :: "uint32_t list"

text \<open>
  \<open>transform\<close> is a member template defined in query/transform.h; it is a parameter
  here, and \<open>'r\<close> is everything it can do (return a count or throw). \<open>Inl\<close> is the
  exception thrown by \<open>transformMeasureOutput\<close> itself.
\<close>

definition transformMeasureOutput ::
  "OutputVectorBinder \<Rightarrow> (MeasureOutputIterator \<Rightarrow> 'r) \<Rightarrow> MeasureOutputVector \<Rightarrow> error + 'r" where
  "transformMeasureOutput b transform output =
     (case DataType output of
        Int32 \<Rightarrow> Inr (transform (make_measure_output_iterator int32_t (Values output)
                   (indexVector b) (baseCounts b) (AggFunc output)))
      | Uint32 \<Rightarrow> Inr (transform (make_measure_output_iterator uint32_t (Values output)
                   (indexVector b) (baseCounts b) (AggFunc output)))
      | Float32 \<Rightarrow> Inr (transform (make_measure_output_iterator float_t (Values output)
                   (indexVector b) (baseCounts b) (AggFunc output)))
      | Int64 \<Rightarrow> Inr (transform (make_measure_output_iterator int64_t (Values output)
                   (indexVector b) (baseCounts b) (AggFunc output)))
      | Float64 \<Rightarrow> Inr (transform (make_measure_output_iterator double_t (Values output)
                   (indexVector b) (baseCounts b) (AggFunc output)))
      | _ \<Rightarrow> Inl (InvalidArgument ''Unsupported data type for MeasureOutput''))"

section \<open>Geo intersection: data\<close>

text \<open>\<open>RecordID\<close>: a batch id and a row index in that batch.\<close>

record RecordID =
  batchID :: int32_t
  index :: uint32_t

text \<open>The fields of \<open>GeoShapeBatch\<close> that the source reads.\<close>

record GeoShapeBatch =
  TotalNumPoints :: int
  TotalWords :: uint8_t

text \<open>\<open>BasePtr\<close> is \<open>None\<close> for \<open>nullptr\<close>, otherwise the bytes it points to.\<close>

record VectorPartySlice =
  BasePtr :: "uint8_t list option"
  NullsOffset :: uint32_t
  ValuesOffset :: uint32_t
  StartingIndex :: uint8_t
  Length :: uint32_t
  DataType :: DataType

record DefaultValue =
  HasDefault :: bool
  GeoPointVal :: "uint32_t \<times> uint32_t"

record ForeignColumnVector =
  RecordIDs :: "RecordID list"
  Batches :: "VectorPartySlice list"
  BaseBatchID :: int32_t
  NumBatches :: int32_t
  NumRecordsInLastBatch :: int32_t
  DataType :: DataType
  DefaultValue :: DefaultValue

text \<open>
  \<open>InputVector\<close> is a union with a \<open>Type\<close> tag. \<open>OtherInput t\<close> is every tag other
  than \<open>VectorPartyInput\<close> and \<open>ForeignColumnInput\<close>.
\<close>

datatype InputVector =
  VectorPartyInput VectorPartySlice
| ForeignColumnInput ForeignColumnVector
| OtherInput nat

record GeoContext =
  geoShapes :: GeoShapeBatch
  indexVectorLength :: int
  startCount :: uint32_t

record GeoIntersectionContext = GeoContext +
  numForeignTables :: int
  inOrOut :: bool

text \<open>
  The passes and device-side helper calls a call issues, in the order it issues them.
\<close>

datatype issued_call =
  PrepareForeignTableIterators | ForEachGeoIntersect | RemoveIf | TransformIf | Release

text \<open>
  The caller-owned buffers the pointers of a call refer to, each as its own list (the
  buffers do not overlap), and the calls issued so far. A thrown exception leaves the
  buffers as they are at the throw, so every operation returns them.
\<close>

record buffers =
  indexVector :: "uint32_t list"
  recordIDVectors :: "RecordID list list"
  outputPredicate :: "uint32_t list"
  DimValues :: "uint8_t list"
  DimNulls :: "uint8_t list"
  issued :: "issued_call list"

text \<open>
  Two parts of the geo pass are defined outside the source files and are parameters:
  \<^item> the for-each over \<open>make_geo_batch_intersect_iterator\<close>: from the shapes, the point
    input, the index vector, its length, the start count, the polarity and the old
    predicate words to the predicate words it leaves;
  \<^item> \<open>GeoPredicateIterator\<close>: from the predicate words, \<open>TotalWords\<close> and a row to the
    signed value of that row.
\<close>

type_synonym geo_batch_intersect =
  "GeoShapeBatch \<Rightarrow> InputVector \<Rightarrow> uint32_t list \<Rightarrow> int \<Rightarrow> uint32_t \<Rightarrow> bool
     \<Rightarrow> uint32_t list \<Rightarrow> uint32_t list"

type_synonym GeoPredicateIterator = "uint32_t list \<Rightarrow> uint8_t \<Rightarrow> nat \<Rightarrow> int8_t"

section \<open>Geo intersection: the filter path\<close>

definition calculateBatchIntersection ::
  "geo_batch_intersect \<Rightarrow> GeoShapeBatch \<Rightarrow> InputVector \<Rightarrow> int \<Rightarrow> uint32_t \<Rightarrow> bool
     \<Rightarrow> buffers \<Rightarrow> buffers" where
  "calculateBatchIntersection intersect shapes geoPoints len start io m =
     m\<lparr>outputPredicate :=
          intersect shapes geoPoints (buffers.indexVector m) len start io (outputPredicate m),
       issued := issued m @ [ForEachGeoIntersect]\<rparr>"

text \<open>
  Modelled from the spec: \<open>IndexZipIteratorMaker<N>::make\<close> is defined outside the
  source files. It zips a key that selects the row's predicate (the row's position),
  the index vector and the first \<open>N\<close> foreign RecordID vectors. Reading position \<open>p\<close>
  gives the tuple of the components at \<open>p\<close>; assigning a tuple to position \<open>p\<close> stores
  each component in its own vector (the key is not stored).
\<close>

type_synonym zip_value = "nat \<times> uint32_t \<times> RecordID list"

definition zip_deref :: "nat \<Rightarrow> buffers \<Rightarrow> nat \<Rightarrow> zip_value" where
  "zip_deref N m p =
     (p, buffers.indexVector m ! p, map (\<lambda>c. c ! p) (take N (recordIDVectors m)))"

definition zip_assign :: "nat \<Rightarrow> buffers \<Rightarrow> nat \<Rightarrow> zip_value \<Rightarrow> buffers" where
  "zip_assign N m p v =
     m\<lparr>buffers.indexVector := (buffers.indexVector m)[p := fst (snd v)],
       recordIDVectors :=
         map (\<lambda>(c, r). c[p := r]) (zip (take N (recordIDVectors m)) (snd (snd v)))
         @ drop N (recordIDVectors m)\<rparr>"

definition GeoRemoveFilter :: "(nat \<Rightarrow> int8_t) \<Rightarrow> bool \<Rightarrow> zip_value \<Rightarrow> bool" where
  "GeoRemoveFilter predicates io v = (io = (sint (predicates (fst v)) < 0))"

text \<open>
  \<open>thrust::remove_if\<close> on the zipped range, as the sequential loop: \<open>first\<close> scans the
  range, \<open>result\<close> trails it, and every element the predicate does not remove is
  assigned to \<open>*result\<close>. It returns the new end.
\<close>

function remove_if_loop ::
  "(zip_value \<Rightarrow> bool) \<Rightarrow> nat \<Rightarrow> nat \<Rightarrow> nat \<Rightarrow> nat \<Rightarrow> buffers \<Rightarrow> nat \<times> buffers" where
  "remove_if_loop pred N first last' result m =
     (if first < last' then
        (if \<not> pred (zip_deref N m first)
         then remove_if_loop pred N (Suc first) last' (Suc result)
                (zip_assign N m result (zip_deref N m first))
         else remove_if_loop pred N (Suc first) last' result m)
      else (result, m))"
  by pat_completeness auto
termination
  by (relation "measure (\<lambda>(pred, N, first, last', result, m). last' - first)") auto

declare remove_if_loop.simps [simp del]

definition remove_if :: "(zip_value \<Rightarrow> bool) \<Rightarrow> nat \<Rightarrow> nat \<Rightarrow> buffers \<Rightarrow> nat \<times> buffers" where
  "remove_if pred N len m = remove_if_loop pred N 0 len 0 m"

definition executeRemoveIf ::
  "GeoPredicateIterator \<Rightarrow> GeoIntersectionContext \<Rightarrow> nat \<Rightarrow> buffers \<Rightarrow> int \<times> buffers" where
  "executeRemoveIf predicateAt ctx N m =
     (let predIter = predicateAt (outputPredicate m) (TotalWords (geoShapes ctx));
          removeFilter = GeoRemoveFilter predIter (inOrOut ctx);
          (new_end, m') = remove_if removeFilter N (nat (indexVectorLength ctx))
                            (m\<lparr>issued := issued m @ [RemoveIf]\<rparr>)
      in (int new_end, m'))"

definition GeoIntersectionContext_run ::
  "geo_batch_intersect \<Rightarrow> GeoPredicateIterator \<Rightarrow> GeoIntersectionContext \<Rightarrow> InputVector
     \<Rightarrow> buffers \<Rightarrow> (error + int) \<times> buffers" where
  "GeoIntersectionContext_run intersect predicateAt ctx inputIterator m =
     (let m1 = calculateBatchIntersection intersect (geoShapes ctx) inputIterator
                 (indexVectorLength ctx) (startCount ctx) (inOrOut ctx) m;
          go = (\<lambda>N. case executeRemoveIf predicateAt ctx N m1 of (r, m2) \<Rightarrow> (Inr r, m2));
          n = numForeignTables ctx
      in if n = 0 then go 0
         else if n = 1 then go 1
         else if n = 2 then go 2
         else if n = 3 then go 3
         else if n = 4 then go 4
         else if n = 5 then go 5
         else if n = 6 then go 6
         else if n = 7 then go 7
         else if n = 8 then go 8
         else (Inl (InvalidArgument ''only support up to 8 foreign tables''), m1))"

section \<open>Geo intersection: the join path\<close>

definition is_non_negative :: "int \<Rightarrow> bool" where
  "is_non_negative val = (val \<ge> 0)"

text \<open>
  Modelled from the spec: \<open>make_dimension_output_iterator\<close> is defined outside the
  source files. A dimension output is a value buffer and a null buffer; assigning a
  (value, validity) pair to row \<open>i\<close> stores the value in \<open>DimValues\<close> and the validity in
  \<open>DimNulls\<close> at \<open>i\<close>.
\<close>

definition dimension_output_assign :: "buffers \<Rightarrow> nat \<Rightarrow> int8_t \<times> uint8_t \<Rightarrow> buffers" where
  "dimension_output_assign m i v =
     m\<lparr>DimValues := (DimValues m)[i := fst v], DimNulls := (DimNulls m)[i := snd v]\<rparr>"

text \<open>
  \<open>thrust::transform_if\<close> with a stencil: for every \<open>i\<close> of the range, if the predicate
  holds of \<open>stencil[i]\<close> then \<open>result[i] = op(first[i])\<close>. Here \<open>first\<close> zips the
  predicate iterator with the constant 1, the stencil is the predicate iterator, \<open>op\<close>
  is \<open>thrust::identity\<close> and the predicate is \<open>is_non_negative\<close>.
\<close>

function transform_if_loop :: "(nat \<Rightarrow> int8_t) \<Rightarrow> nat \<Rightarrow> nat \<Rightarrow> buffers \<Rightarrow> buffers" where
  "transform_if_loop predicates i last' m =
     (if i < last' then
        transform_if_loop predicates (Suc i) last'
          (if is_non_negative (sint (predicates i))
           then dimension_output_assign m i (id (predicates i, 1))
           else m)
      else m)"
  by pat_completeness auto
termination
  by (relation "measure (\<lambda>(predicates, i, last', m). last' - i)") auto

declare transform_if_loop.simps [simp del]

definition GeoIntersectionJoinContext_run ::
  "geo_batch_intersect \<Rightarrow> GeoPredicateIterator \<Rightarrow> GeoContext \<Rightarrow> InputVector
     \<Rightarrow> buffers \<Rightarrow> (error + int) \<times> buffers" where
  "GeoIntersectionJoinContext_run intersect predicateAt ctx inputIterator m =
     (let m1 = calculateBatchIntersection intersect (geoShapes ctx) inputIterator
                 (indexVectorLength ctx) (startCount ctx) True m;
          geoPredicateIter = predicateAt (outputPredicate m1) (TotalWords (geoShapes ctx));
          m2 = transform_if_loop geoPredicateIter 0 (nat (indexVectorLength ctx))
                 (m1\<lparr>issued := issued m1 @ [TransformIf]\<rparr>)
      in (Inr 0, m2))"

section \<open>Geo intersection: binding the input and the entry points\<close>

text \<open>
  \<open>GeoInputVectorBinder<Context>::bind\<close>. \<open>run\<close> is \<open>context.run\<close> of the context type
  the class is instantiated with; the iterator bind builds is determined by the input,
  which stands for it. An exception of \<open>run\<close> on the foreign path skips \<open>release\<close>.
\<close>

fun bind ::
  "(InputVector \<Rightarrow> buffers \<Rightarrow> (error + int) \<times> buffers) \<Rightarrow> InputVector \<Rightarrow> buffers
     \<Rightarrow> (error + int) \<times> buffers" where
  "bind run (VectorPartyInput points) m =
     (if VectorPartySlice.DataType points \<noteq> GeoPoint
      then (Inl (InvalidArgument ''only geo point column are allowed in geo_intersects''), m)
      else if BasePtr points = None then (Inr 0, m)
      else run (VectorPartyInput points) m)"
| "bind run (ForeignColumnInput fv) m =
     (if ForeignColumnVector.DataType fv \<noteq> GeoPoint
      then (Inl (InvalidArgument ''only geo point column are allowed in geo_intersects''), m)
      else (case run (ForeignColumnInput fv)
                   (m\<lparr>issued := issued m @ [PrepareForeignTableIterators]\<rparr>) of
              (Inl e, m') \<Rightarrow> (Inl e, m')
            | (Inr res, m') \<Rightarrow> (Inr res, m'\<lparr>issued := issued m' @ [Release]\<rparr>)))"
| "bind run (OtherInput t) m =
     (Inl (InvalidArgument ''Unsupported data type 276for geo intersection contexts''), m)"

text \<open>
  The result envelope. \<open>res\<close> starts as 0 and \<open>pStrErr\<close> as null (\<open>None\<close>); a caught
  exception stores its message in \<open>pStrErr\<close>. \<open>CheckCUDAError\<close> is defined outside the
  source files: \<open>cudaError\<close> is the message it throws with, \<open>None\<close> when the CUDA
  runtime reports no error. The selection of the device (\<open>cudaSetDevice\<close>, compiled in
  under \<open>RUN_ON_DEVICE\<close> only) and the line written to \<open>std::cerr\<close> touch none of the
  buffers and are left out.
\<close>

record CGoCallResHandle =
  res :: int
  pStrErr :: "string option"

definition GeoBatchIntersects ::
  "geo_batch_intersect \<Rightarrow> GeoPredicateIterator \<Rightarrow> string option \<Rightarrow> GeoShapeBatch \<Rightarrow> InputVector
     \<Rightarrow> int \<Rightarrow> uint32_t \<Rightarrow> int \<Rightarrow> bool \<Rightarrow> buffers \<Rightarrow> CGoCallResHandle \<times> buffers" where
  "GeoBatchIntersects intersect predicateAt cudaError shapes points len start nForeign io m =
     (let ctx = \<lparr>geoShapes = shapes, indexVectorLength = len, startCount = start,
                 numForeignTables = nForeign, inOrOut = io\<rparr>
      in case bind (GeoIntersectionContext_run intersect predicateAt ctx) points m of
           (Inl e, m') \<Rightarrow> (\<lparr>res = 0, pStrErr = Some (what e)\<rparr>, m')
         | (Inr r, m') \<Rightarrow>
             (case cudaError of
                None \<Rightarrow> (\<lparr>res = r, pStrErr = None\<rparr>, m')
              | Some msg \<Rightarrow> (\<lparr>res = r, pStrErr = Some msg\<rparr>, m')))"

definition GeoBatchIntersectsJoin ::
  "geo_batch_intersect \<Rightarrow> GeoPredicateIterator \<Rightarrow> string option \<Rightarrow> GeoShapeBatch \<Rightarrow> InputVector
     \<Rightarrow> int \<Rightarrow> uint32_t \<Rightarrow> buffers \<Rightarrow> CGoCallResHandle \<times> buffers" where
  "GeoBatchIntersectsJoin intersect predicateAt cudaError shapes points len start m =
     (let ctx = \<lparr>geoShapes = shapes, indexVectorLength = len, startCount = start\<rparr>
      in case bind (GeoIntersectionJoinContext_run intersect predicateAt ctx) points m of
           (Inl e, m') \<Rightarrow> (\<lparr>res = 0, pStrErr = Some (what e)\<rparr>, m')
         | (Inr r, m') \<Rightarrow>
             (case cudaError of
                None \<Rightarrow> (\<lparr>res = r, pStrErr = None\<rparr>, m')
              | Some msg \<Rightarrow> (\<lparr>res = r, pStrErr = Some msg\<rparr>, m')))"

section \<open>Example inputs\<close>

text \<open>
  Concrete inputs on which the definitions are run. \<open>store_words ws\<close> is a geo pass that
  leaves the words \<open>ws\<close> in the predicate buffer; \<open>first_set_bit\<close> is a predicate
  iterator that yields the number of the first set bit among the row's words, and -1 when
  no bit is set.
\<close>

definition store_words :: "uint32_t list \<Rightarrow> geo_batch_intersect" where
  "store_words ws shapes geoPoints iv len start io old = ws"

definition first_set_bit :: GeoPredicateIterator where
  "first_set_bit ws totalWords row =
     (case filter (\<lambda>b. bit (ws ! (row * unat totalWords + b div 32)) (b mod 32))
             [0..<32 * unat totalWords] of
        [] \<Rightarrow> - 1
      | b # _ \<Rightarrow> of_nat b)"

definition example_buffers :: buffers where
  "example_buffers =
     \<lparr>buffers.indexVector = [10, 11, 12],
      recordIDVectors = [[\<lparr>batchID = 0, index = 0\<rparr>, \<lparr>batchID = 0, index = 1\<rparr>, \<lparr>batchID = 0, index = 2\<rparr>],
                         [\<lparr>batchID = 1, index = 5\<rparr>, \<lparr>batchID = 1, index = 6\<rparr>, \<lparr>batchID = 1, index = 7\<rparr>]],
      outputPredicate = [0, 0, 0],
      DimValues = [9, 9, 9],
      DimNulls = [0, 0, 0],
      issued = []\<rparr>"

definition example_shapes :: GeoShapeBatch where
  "example_shapes = \<lparr>TotalNumPoints = 5, TotalWords = 1\<rparr>"

definition example_slice :: "uint8_t list option \<Rightarrow> DataType \<Rightarrow> VectorPartySlice" where
  "example_slice base ty =
     \<lparr>BasePtr = base, NullsOffset = 0, ValuesOffset = 0, StartingIndex = 0, Length = 3,
      DataType = ty\<rparr>"

definition example_foreign :: "DataType \<Rightarrow> ForeignColumnVector" where
  "example_foreign ty =
     \<lparr>RecordIDs = [\<lparr>batchID = 0, index = 0\<rparr>, \<lparr>batchID = 0, index = 1\<rparr>, \<lparr>batchID = 0, index = 2\<rparr>],
      Batches = [example_slice (Some []) ty], BaseBatchID = 0, NumBatches = 1,
      NumRecordsInLastBatch = 3, DataType = ty,
      DefaultValue = \<lparr>HasDefault = False, GeoPointVal = (0, 0)\<rparr>\<rparr>"

definition example_filter_run :: "int \<Rightarrow> InputVector \<Rightarrow> buffers \<Rightarrow> (error + int) \<times> buffers" where
  "example_filter_run nForeign =
     GeoIntersectionContext_run (store_words [4, 0, 1]) first_set_bit
       \<lparr>geoShapes = example_shapes, indexVectorLength = 3, startCount = 0,
        numForeignTables = nForeign, inOrOut = True\<rparr>"

definition example_filter_ctx :: "int \<Rightarrow> bool \<Rightarrow> GeoIntersectionContext" where
  "example_filter_ctx nForeign io =
     \<lparr>geoShapes = example_shapes, indexVectorLength = 3, startCount = 0,
      numForeignTables = nForeign, inOrOut = io\<rparr>"

definition example_points :: InputVector where
  "example_points = VectorPartyInput (example_slice (Some []) GeoPoint)"

definition example_join_ctx :: GeoContext where
  "example_join_ctx = \<lparr>geoShapes = example_shapes, indexVectorLength = 3, startCount = 0\<rparr>"

definition example_join_ctx_two_rows :: GeoContext where
  "example_join_ctx_two_rows =
     \<lparr>geoShapes = example_shapes, indexVectorLength = 2, startCount = 0\<rparr>"

section \<open>Properties\<close>

subsection \<open>The compaction loop and the projection loop in closed form\<close>

text \<open>
  Moving the element at \<open>f\<close> to position \<open>p\<close> of the zipped range moves it in the index
  vector and in each of the first \<open>N\<close> foreign vectors.
\<close>

lemma zip_move:
  "zip_assign N m p (zip_deref N m f) =
     m\<lparr>buffers.indexVector := (buffers.indexVector m)[p := buffers.indexVector m ! f],
       recordIDVectors := map (\<lambda>c. c[p := c ! f]) (take N (recordIDVectors m))
                          @ drop N (recordIDVectors m)\<rparr>"
proof -
  have "map (\<lambda>(c, r). c[p := r]) (zip xs (map (\<lambda>c. c ! f) xs)) = map (\<lambda>c. c[p := c ! f]) xs"
    for xs :: "RecordID list list"
    by (induction xs) simp_all
  then show ?thesis
    by (simp add: zip_assign_def zip_deref_def)
qed

text \<open>
  One step of the compaction on a single vector: storing the kept element \<open>a ! first\<close> at
  \<open>result\<close> and compacting the rest is compacting from \<open>first\<close>.
\<close>

lemma compact_step:
  assumes "result \<le> first" and "first < length a" and "\<forall>k\<in>set ks. first < k"
  shows "take (Suc result) (a[result := a ! first])
           @ map ((!) (a[result := a ! first])) ks
           @ drop (Suc result + length ks) (a[result := a ! first])
         = take result a @ map ((!) a) (first # ks) @ drop (result + length (first # ks)) a"
proof -
  let ?b = "a[result := a ! first]"
  have r: "result < length a" using assms by simp
  have 1: "take (Suc result) ?b = take result a @ [a ! first]"
    using r by (simp add: take_Suc_conv_app_nth)
  have 2: "map ((!) ?b) ks = map ((!) a) ks"
    using assms by (intro map_cong) auto
  have 3: "drop (Suc result + length ks) ?b = drop (Suc result + length ks) a"
    by (simp add: drop_update_cancel)
  show ?thesis by (simp add: 1 2 3)
qed

text \<open>
  The loop of \<open>remove_if\<close>, for a predicate that looks at the key only: it returns
  \<open>result\<close> plus the number of kept positions, and every zipped vector holds its
  elements at the kept positions, in order, from \<open>result\<close> on.
\<close>

lemma remove_if_loop_compacts:
  shows "\<forall>v. pred v = q (fst v) \<Longrightarrow> result \<le> first \<Longrightarrow> last' \<le> length (buffers.indexVector m) \<Longrightarrow>
         \<forall>c\<in>set (take N (recordIDVectors m)). last' \<le> length c \<Longrightarrow>
         remove_if_loop pred N first last' result m =
           (result + length (filter (\<lambda>p. \<not> q p) [first..<last']),
            m\<lparr>buffers.indexVector :=
                take result (buffers.indexVector m)
                @ map ((!) (buffers.indexVector m)) (filter (\<lambda>p. \<not> q p) [first..<last'])
                @ drop (result + length (filter (\<lambda>p. \<not> q p) [first..<last']))
                    (buffers.indexVector m),
              recordIDVectors :=
                map (\<lambda>c. take result c
                          @ map ((!) c) (filter (\<lambda>p. \<not> q p) [first..<last'])
                          @ drop (result + length (filter (\<lambda>p. \<not> q p) [first..<last'])) c)
                  (take N (recordIDVectors m))
                @ drop N (recordIDVectors m)\<rparr>)"
proof (induction pred N first last' result m rule: remove_if_loop.induct)
  case (1 pred N first last' result m)
  have key: "\<And>v. pred v = q (fst v)" using "1.prems"(1) by blast
  have qf: "pred (zip_deref N m first) = q first"
    using key by (simp add: zip_deref_def)
  show ?case
  proof (cases "first < last'")
    case False
    then show ?thesis
    proof -
      have "map (\<lambda>c. take result c @ drop result c) xs = xs" for xs :: "RecordID list list"
        by (induction xs) simp_all
      with False show ?thesis
        by (subst remove_if_loop.simps) simp
    qed
  next
    case lt: True
    show ?thesis
    proof (cases "q first")
      case True
      have up: "[first..<last'] = first # [Suc first..<last']"
        using lt by (simp add: upt_conv_Cons)
      have "remove_if_loop pred N first last' result m =
              remove_if_loop pred N (Suc first) last' result m"
        using lt True by (subst remove_if_loop.simps) (simp add: qf)
      moreover have "\<not> \<not> pred (zip_deref N m first)"
        using True by (simp add: qf)
      note "1.IH"(2)[OF lt this "1.prems"(1) le_SucI[OF "1.prems"(2)] "1.prems"(3) "1.prems"(4)]
      ultimately show ?thesis
        using True by (simp add: up)
    next
      case False
      let ?ks = "filter (\<lambda>p. \<not> q p) [Suc first..<last']"
      let ?m1 = "zip_assign N m result (zip_deref N m first)"
      have up: "filter (\<lambda>p. \<not> q p) [first..<last'] = first # ?ks"
        using lt False by (simp add: upt_conv_Cons)
      have ks: "\<forall>k\<in>set ?ks. first < k" by auto
      have unfold: "remove_if_loop pred N first last' result m =
              remove_if_loop pred N (Suc first) last' (Suc result) ?m1"
        using lt False by (subst remove_if_loop.simps) (simp add: qf)
      have p1: "\<not> pred (zip_deref N m first)" using False by (simp add: qf)
      have len1: "last' \<le> length (buffers.indexVector ?m1)"
        using "1.prems" by (simp add: zip_move)
      have tk: "take N (recordIDVectors ?m1) =
                  map (\<lambda>c. c[result := c ! first]) (take N (recordIDVectors m))"
        by (auto simp: zip_move)
      have dr: "drop N (recordIDVectors ?m1) = drop N (recordIDVectors m)"
        by (cases "N \<le> length (recordIDVectors m)") (simp_all add: zip_move min_def)
      have len2: "\<forall>c\<in>set (take N (recordIDVectors ?m1)). last' \<le> length c"
        using "1.prems"(4) by (simp add: tk)
      have ih: "remove_if_loop pred N (Suc first) last' (Suc result) ?m1 =
           (Suc result + length ?ks,
            ?m1\<lparr>buffers.indexVector :=
                take (Suc result) (buffers.indexVector ?m1)
                @ map ((!) (buffers.indexVector ?m1)) ?ks
                @ drop (Suc result + length ?ks) (buffers.indexVector ?m1),
              recordIDVectors :=
                map (\<lambda>c. take (Suc result) c @ map ((!) c) ?ks @ drop (Suc result + length ?ks) c)
                  (take N (recordIDVectors ?m1))
                @ drop N (recordIDVectors ?m1)\<rparr>)"
        using "1.IH"(1)[OF lt p1 "1.prems"(1) _ len1 len2] "1.prems"(2) by simp
      have iv: "take (Suc result) (buffers.indexVector ?m1)
                @ map ((!) (buffers.indexVector ?m1)) ?ks
                @ drop (Suc result + length ?ks) (buffers.indexVector ?m1)
              = take result (buffers.indexVector m)
                @ map ((!) (buffers.indexVector m)) (first # ?ks)
                @ drop (result + length (first # ?ks)) (buffers.indexVector m)"
        using compact_step[OF "1.prems"(2) _ ks, of "buffers.indexVector m"] lt "1.prems"(3)
        by (simp add: zip_move)
      have cols: "map (\<lambda>c. take (Suc result) c @ map ((!) c) ?ks @ drop (Suc result + length ?ks) c)
                  (take N (recordIDVectors ?m1))
              = map (\<lambda>c. take result c @ map ((!) c) (first # ?ks)
                          @ drop (result + length (first # ?ks)) c)
                  (take N (recordIDVectors m))"
        unfolding tk map_map
      proof (rule map_cong[OF refl])
        fix c assume c: "c \<in> set (take N (recordIDVectors m))"
        then have "first < length c" using "1.prems"(4) lt by auto
        from compact_step[OF "1.prems"(2) this ks]
        show "((\<lambda>c. take (Suc result) c @ map ((!) c) ?ks @ drop (Suc result + length ?ks) c)
                 \<circ> (\<lambda>c. c[result := c ! first])) c
              = take result c @ map ((!) c) (first # ?ks) @ drop (result + length (first # ?ks)) c"
          by simp
      qed
      show ?thesis
        unfolding unfold ih iv cols dr up
        by (simp add: zip_move)
    qed
  qed
qed


text \<open>
  The loop of \<open>transform_if\<close>: a row of the range whose predicate value is non-negative
  gets that value and the validity 1; every other row keeps what it had.
\<close>

lemma transform_if_loop_spec:
  "transform_if_loop predicates i last' m =
     m\<lparr>DimValues :=
         map (\<lambda>j. if i \<le> j \<and> j < last' \<and> 0 \<le> sint (predicates j) then predicates j
                   else DimValues m ! j) [0..<length (DimValues m)],
       DimNulls :=
         map (\<lambda>j. if i \<le> j \<and> j < last' \<and> 0 \<le> sint (predicates j) then 1
                   else DimNulls m ! j) [0..<length (DimNulls m)]\<rparr>"
proof (induction predicates i last' m rule: transform_if_loop.induct)
  case (1 predicates i last' m)
  show ?case
  proof (cases "i < last'")
    case False
    then have c: "\<And>j. (i \<le> j \<and> j < last' \<and> 0 \<le> sint (predicates j)) = False"
      by auto
    show ?thesis
      using False by (subst transform_if_loop.simps) (simp add: c map_nth)
  next
    case True
    let ?m1 = "if is_non_negative (sint (predicates i))
               then dimension_output_assign m i (id (predicates i, 1)) else m"
    have step: "transform_if_loop predicates i last' m =
                  transform_if_loop predicates (Suc i) last' ?m1"
      using True by (subst transform_if_loop.simps) simp
    have v: "map (\<lambda>j. if Suc i \<le> j \<and> j < last' \<and> 0 \<le> sint (predicates j) then predicates j
                   else DimValues ?m1 ! j) [0..<length (DimValues ?m1)]
           = map (\<lambda>j. if i \<le> j \<and> j < last' \<and> 0 \<le> sint (predicates j) then predicates j
                   else DimValues m ! j) [0..<length (DimValues m)]"
    proof (rule nth_equalityI)
      show "length (map (\<lambda>j. if Suc i \<le> j \<and> j < last' \<and> 0 \<le> sint (predicates j)
                             then predicates j else DimValues ?m1 ! j) [0..<length (DimValues ?m1)])
          = length (map (\<lambda>j. if i \<le> j \<and> j < last' \<and> 0 \<le> sint (predicates j)
                             then predicates j else DimValues m ! j) [0..<length (DimValues m)])"
        by (simp add: dimension_output_assign_def)
    next
      fix j
      assume "j < length (map (\<lambda>j. if Suc i \<le> j \<and> j < last' \<and> 0 \<le> sint (predicates j)
                             then predicates j else DimValues ?m1 ! j) [0..<length (DimValues ?m1)])"
      then have j: "j < length (DimValues m)"
        by (simp add: dimension_output_assign_def split: if_splits)
      show "map (\<lambda>j. if Suc i \<le> j \<and> j < last' \<and> 0 \<le> sint (predicates j)
                             then predicates j else DimValues ?m1 ! j) [0..<length (DimValues ?m1)] ! j
          = map (\<lambda>j. if i \<le> j \<and> j < last' \<and> 0 \<le> sint (predicates j)
                             then predicates j else DimValues m ! j) [0..<length (DimValues m)] ! j"
        using j True
        by (cases "j = i") (auto simp: is_non_negative_def dimension_output_assign_def)
    qed
    have n: "map (\<lambda>j. if Suc i \<le> j \<and> j < last' \<and> 0 \<le> sint (predicates j) then 1
                   else DimNulls ?m1 ! j) [0..<length (DimNulls ?m1)]
           = map (\<lambda>j. if i \<le> j \<and> j < last' \<and> 0 \<le> sint (predicates j) then 1
                   else DimNulls m ! j) [0..<length (DimNulls m)]"
    proof (rule nth_equalityI)
      show "length (map (\<lambda>j. if Suc i \<le> j \<and> j < last' \<and> 0 \<le> sint (predicates j)
                             then 1 else DimNulls ?m1 ! j) [0..<length (DimNulls ?m1)])
          = length (map (\<lambda>j. if i \<le> j \<and> j < last' \<and> 0 \<le> sint (predicates j)
                             then 1 else DimNulls m ! j) [0..<length (DimNulls m)])"
        by (simp add: dimension_output_assign_def)
    next
      fix j
      assume "j < length (map (\<lambda>j. if Suc i \<le> j \<and> j < last' \<and> 0 \<le> sint (predicates j)
                             then 1 else DimNulls ?m1 ! j) [0..<length (DimNulls ?m1)])"
      then have j: "j < length (DimNulls m)"
        by (simp add: dimension_output_assign_def split: if_splits)
      show "map (\<lambda>j. if Suc i \<le> j \<and> j < last' \<and> 0 \<le> sint (predicates j)
                             then 1 else DimNulls ?m1 ! j) [0..<length (DimNulls ?m1)] ! j
          = map (\<lambda>j. if i \<le> j \<and> j < last' \<and> 0 \<le> sint (predicates j)
                             then 1 else DimNulls m ! j) [0..<length (DimNulls m)] ! j"
        using j True
        by (cases "j = i") (auto simp: is_non_negative_def dimension_output_assign_def)
    qed
    show ?thesis
      unfolding step "1.IH"[OF True] v n
      by (simp add: dimension_output_assign_def)
  qed
qed

text \<open>
  \<open>executeRemoveIf\<close> and the filter context's \<open>run\<close> in closed form. The kept
  positions are those where the polarity equals "the predicate value is not negative".
\<close>

lemma executeRemoveIf_compacts:
  fixes predicateAt :: GeoPredicateIterator
  assumes "nat (indexVectorLength ctx) \<le> length (buffers.indexVector m)"
    and "\<forall>c\<in>set (take N (recordIDVectors m)). nat (indexVectorLength ctx) \<le> length c"
  defines "ks \<equiv> filter (\<lambda>i. inOrOut ctx =
                     (\<not> sint (predicateAt (outputPredicate m) (TotalWords (geoShapes ctx)) i) < 0))
                   [0..<nat (indexVectorLength ctx)]"
  shows "executeRemoveIf predicateAt ctx N m =
           (int (length ks),
            m\<lparr>issued := issued m @ [RemoveIf],
              buffers.indexVector :=
                map ((!) (buffers.indexVector m)) ks @ drop (length ks) (buffers.indexVector m),
              recordIDVectors :=
                map (\<lambda>c. map ((!) c) ks @ drop (length ks) c) (take N (recordIDVectors m))
                @ drop N (recordIDVectors m)\<rparr>)"
proof -
  let ?predIter = "predicateAt (outputPredicate m) (TotalWords (geoShapes ctx))"
  let ?q = "\<lambda>p. inOrOut ctx = (sint (?predIter p) < 0)"
  let ?m0 = "m\<lparr>issued := issued m @ [RemoveIf]\<rparr>"
  have ks: "filter (\<lambda>p. \<not> ?q p) [0..<nat (indexVectorLength ctx)] = ks"
    unfolding ks_def by (rule filter_cong) auto
  have key: "\<forall>v. GeoRemoveFilter ?predIter (inOrOut ctx) v = ?q (fst v)"
    by (simp add: GeoRemoveFilter_def)
  have "remove_if_loop (GeoRemoveFilter ?predIter (inOrOut ctx)) N 0
          (nat (indexVectorLength ctx)) 0 ?m0 =
        (0 + length ks,
         ?m0\<lparr>buffers.indexVector :=
               take 0 (buffers.indexVector ?m0) @ map ((!) (buffers.indexVector ?m0)) ks
               @ drop (0 + length ks) (buffers.indexVector ?m0),
             recordIDVectors :=
               map (\<lambda>c. take 0 c @ map ((!) c) ks @ drop (0 + length ks) c)
                 (take N (recordIDVectors ?m0))
               @ drop N (recordIDVectors ?m0)\<rparr>)"
    using remove_if_loop_compacts[OF key, of 0 0 "nat (indexVectorLength ctx)" ?m0 N] assms(1,2)
    unfolding ks by simp
  then show ?thesis
    by (simp add: executeRemoveIf_def remove_if_def Let_def)
qed

lemma GeoIntersectionContext_run_dispatch:
  "GeoIntersectionContext_run intersect predicateAt ctx input m =
     (let m1 = calculateBatchIntersection intersect (geoShapes ctx) input
                 (indexVectorLength ctx) (startCount ctx) (inOrOut ctx) m
      in if 0 \<le> numForeignTables ctx \<and> numForeignTables ctx \<le> 8
         then (case executeRemoveIf predicateAt ctx (nat (numForeignTables ctx)) m1 of
                 (r, m2) \<Rightarrow> (Inr r, m2))
         else (Inl (InvalidArgument ''only support up to 8 foreign tables''), m1))"
proof (cases "0 \<le> numForeignTables ctx \<and> numForeignTables ctx \<le> 8")
  case True
  then have "numForeignTables ctx \<in> {0, 1, 2, 3, 4, 5, 6, 7, 8}" by auto
  then show ?thesis
    by (auto simp: GeoIntersectionContext_run_def Let_def)
next
  case False
  then show ?thesis
    by (auto simp: GeoIntersectionContext_run_def Let_def)
qed

lemma GeoIntersectionContext_run_compacts:
  fixes intersect :: geo_batch_intersect and predicateAt :: GeoPredicateIterator
    and input :: InputVector
  assumes "0 \<le> numForeignTables ctx" and "numForeignTables ctx \<le> 8"
    and "nat (indexVectorLength ctx) \<le> length (buffers.indexVector m)"
    and "\<forall>c\<in>set (take (nat (numForeignTables ctx)) (recordIDVectors m)).
           nat (indexVectorLength ctx) \<le> length c"
  defines "m1 \<equiv> calculateBatchIntersection intersect (geoShapes ctx) input
                   (indexVectorLength ctx) (startCount ctx) (inOrOut ctx) m"
  defines "ks \<equiv> filter (\<lambda>i. inOrOut ctx =
                     (\<not> sint (predicateAt (outputPredicate m1) (TotalWords (geoShapes ctx)) i) < 0))
                   [0..<nat (indexVectorLength ctx)]"
  shows "GeoIntersectionContext_run intersect predicateAt ctx input m =
           (Inr (int (length ks)),
            m1\<lparr>issued := issued m1 @ [RemoveIf],
               buffers.indexVector :=
                 map ((!) (buffers.indexVector m)) ks @ drop (length ks) (buffers.indexVector m),
               recordIDVectors :=
                 map (\<lambda>c. map ((!) c) ks @ drop (length ks) c)
                   (take (nat (numForeignTables ctx)) (recordIDVectors m))
                 @ drop (nat (numForeignTables ctx)) (recordIDVectors m)\<rparr>)"
proof -
  have iv: "buffers.indexVector m1 = buffers.indexVector m"
    and cols: "recordIDVectors m1 = recordIDVectors m"
    by (simp_all add: m1_def calculateBatchIntersection_def)
  have "executeRemoveIf predicateAt ctx (nat (numForeignTables ctx)) m1 =
           (int (length ks),
            m1\<lparr>issued := issued m1 @ [RemoveIf],
              buffers.indexVector :=
                map ((!) (buffers.indexVector m1)) ks @ drop (length ks) (buffers.indexVector m1),
              recordIDVectors :=
                map (\<lambda>c. map ((!) c) ks @ drop (length ks) c)
                  (take (nat (numForeignTables ctx)) (recordIDVectors m1))
                @ drop (nat (numForeignTables ctx)) (recordIDVectors m1)\<rparr>)"
    unfolding ks_def
    by (rule executeRemoveIf_compacts) (use assms(3,4) in \<open>simp_all add: iv cols\<close>)
  then show ?thesis
    using assms(1,2)
    by (simp add: GeoIntersectionContext_run_dispatch Let_def iv cols flip: m1_def)
qed


subsection \<open>The filter path\<close>

text \<open>
  Claim C1. A call of \<open>GeoBatchIntersects\<close> whose input reaches the filter context's
  \<open>run\<close> (a \<open>GeoPoint\<close> direct input with a non-null \<open>BasePtr\<close>, or a \<open>GeoPoint\<close>
  foreign input), on an index vector of \<open>indexVectorLength\<close> entries with 0 to 8 foreign
  vectors at least as long: the surviving entries are exactly the original entries at
  the positions \<open>i\<close> where \<open>inOrOut\<close> equals "\<open>predicateBit i < 0\<close> is false", in their
  original order, at the front of the index vector; the value returned is their number.
  The predicate values are those of the predicate buffer as the geo pass of the same call
  left it.
\<close>

theorem filter_path_compaction:
  assumes "0 \<le> len"
    and "nat len \<le> length (buffers.indexVector m)"
    and "0 \<le> nForeign" and "nForeign \<le> 8"
    and "nat nForeign \<le> length (recordIDVectors m)"
    and "\<forall>c\<in>set (take (nat nForeign) (recordIDVectors m)). nat len \<le> length c"
    and "(\<exists>points. input = VectorPartyInput points
                 \<and> VectorPartySlice.DataType points = GeoPoint \<and> BasePtr points \<noteq> None)
       \<or> (\<exists>fv. input = ForeignColumnInput fv \<and> ForeignColumnVector.DataType fv = GeoPoint)"
    and "GeoBatchIntersects intersect predicateAt cudaError shapes input len start nForeign io m
           = (h, m')"
  shows "let predicateBit = predicateAt (outputPredicate m') (TotalWords shapes);
             survivors = filter (\<lambda>i. io = (\<not> sint (predicateBit i) < 0)) [0..<nat len]
         in res h = int (length survivors)
          \<and> pStrErr h = cudaError
          \<and> take (length survivors) (buffers.indexVector m')
              = map ((!) (buffers.indexVector m)) survivors"
proof -
  define ctx where "ctx = \<lparr>geoShapes = shapes, indexVectorLength = len, startCount = start,
                           numForeignTables = nForeign, inOrOut = io\<rparr>"
  define P where
    "P = intersect shapes input (buffers.indexVector m) len start io (outputPredicate m)"
  define S where
    "S = filter (\<lambda>i. io = (\<not> sint (predicateAt P (TotalWords shapes) i) < 0)) [0..<nat len]"
  have ctx: "geoShapes ctx = shapes" "indexVectorLength ctx = len" "startCount ctx = start"
    "numForeignTables ctx = nForeign" "inOrOut ctx = io"
    by (simp_all add: ctx_def)
  have run: "\<exists>m2. GeoIntersectionContext_run intersect predicateAt ctx input b
                    = (Inr (int (length S)), m2)
                \<and> outputPredicate m2 = P
                \<and> buffers.indexVector m2
                    = map ((!) (buffers.indexVector m)) S @ drop (length S) (buffers.indexVector m)"
    if b: "buffers.indexVector b = buffers.indexVector m" "recordIDVectors b = recordIDVectors m"
      "outputPredicate b = outputPredicate m"
    for b
  proof -
    have p: "outputPredicate (calculateBatchIntersection intersect shapes input len start io b)
               = P"
      by (simp add: calculateBatchIntersection_def b P_def)
    have "0 \<le> numForeignTables ctx" "numForeignTables ctx \<le> 8"
      "nat (indexVectorLength ctx) \<le> length (buffers.indexVector b)"
      "\<forall>c\<in>set (take (nat (numForeignTables ctx)) (recordIDVectors b)).
           nat (indexVectorLength ctx) \<le> length c"
      using assms(2,3,4,6) by (simp_all add: ctx b)
    from GeoIntersectionContext_run_compacts[OF this, of intersect predicateAt input]
    show ?thesis
      by (simp add: ctx b S_def p)
  qed
  have concl: ?thesis
    if "res h = int (length S)" "pStrErr h = cudaError" "outputPredicate m' = P"
      "buffers.indexVector m'
         = map ((!) (buffers.indexVector m)) S @ drop (length S) (buffers.indexVector m)"
    using that by (simp add: Let_def S_def)
  have call: "GeoBatchIntersects intersect predicateAt cudaError shapes input len start nForeign
                io m =
              (case bind (GeoIntersectionContext_run intersect predicateAt ctx) input m of
                 (Inl e, m') \<Rightarrow> (\<lparr>res = 0, pStrErr = Some (what e)\<rparr>, m')
               | (Inr r, m') \<Rightarrow> (\<lparr>res = r, pStrErr = cudaError\<rparr>, m'))"
    by (simp add: GeoBatchIntersects_def ctx_def split: option.splits sum.splits prod.splits)
  from assms(7) show ?thesis
  proof (elim disjE exE conjE)
    fix points
    assume i: "input = VectorPartyInput points" "VectorPartySlice.DataType points = GeoPoint"
      "BasePtr points \<noteq> None"
    from run[of m] obtain m2
      where r: "GeoIntersectionContext_run intersect predicateAt ctx input m
                  = (Inr (int (length S)), m2)"
        and o: "outputPredicate m2 = P"
        and v: "buffers.indexVector m2
                  = map ((!) (buffers.indexVector m)) S @ drop (length S) (buffers.indexVector m)"
      by auto
    have "bind (GeoIntersectionContext_run intersect predicateAt ctx) input m
            = (Inr (int (length S)), m2)"
      using i r by auto
    with assms(8) have "h = \<lparr>res = int (length S), pStrErr = cudaError\<rparr>" "m' = m2"
      by (simp_all add: call)
    then show ?thesis using o v by (intro concl) simp_all
  next
    fix fv
    assume i: "input = ForeignColumnInput fv" "ForeignColumnVector.DataType fv = GeoPoint"
    from run[of "m\<lparr>issued := issued m @ [PrepareForeignTableIterators]\<rparr>"] obtain m2
      where r: "GeoIntersectionContext_run intersect predicateAt ctx input
                  (m\<lparr>issued := issued m @ [PrepareForeignTableIterators]\<rparr>)
                  = (Inr (int (length S)), m2)"
        and o: "outputPredicate m2 = P"
        and v: "buffers.indexVector m2
                  = map ((!) (buffers.indexVector m)) S @ drop (length S) (buffers.indexVector m)"
      by auto
    have "bind (GeoIntersectionContext_run intersect predicateAt ctx) input m
            = (Inr (int (length S)), m2\<lparr>issued := issued m2 @ [Release]\<rparr>)"
      using i r by simp
    with assms(8) have "h = \<lparr>res = int (length S), pStrErr = cudaError\<rparr>"
      "m' = m2\<lparr>issued := issued m2 @ [Release]\<rparr>"
      by (simp_all add: call)
    then show ?thesis using o v by (intro concl) simp_all
  qed
qed

theorem filter_path_compaction_witness:
  "res (fst (GeoBatchIntersects (store_words [4, 0, 1]) first_set_bit None example_shapes
               example_points 3 0 2 True example_buffers)) = 2
   \<and> pStrErr (fst (GeoBatchIntersects (store_words [4, 0, 1]) first_set_bit None example_shapes
               example_points 3 0 2 True example_buffers)) = None
   \<and> take 2 (buffers.indexVector (snd (GeoBatchIntersects (store_words [4, 0, 1]) first_set_bit
               None example_shapes example_points 3 0 2 True example_buffers)))
     = [10, 12]"
proof -
  let ?call = "GeoBatchIntersects (store_words [4, 0, 1]) first_set_bit None example_shapes
                 example_points 3 0 2 True example_buffers"
  have out: "outputPredicate (snd ?call) = [4, 0, 1]"
    by code_simp
  have ks: "filter (\<lambda>i. True = (\<not> sint (first_set_bit [4, 0, 1] (TotalWords example_shapes) i) < 0))
              [0..<nat 3] = [0, 2]"
    by code_simp
  have h1: "(0::int) \<le> 3"
    and h2: "nat 3 \<le> length (buffers.indexVector example_buffers)"
    and h3: "(0::int) \<le> 2" and h4: "(2::int) \<le> 8"
    and h5: "nat 2 \<le> length (recordIDVectors example_buffers)"
    and h6: "\<forall>c\<in>set (take (nat 2) (recordIDVectors example_buffers)). nat 3 \<le> length c"
    and h7: "(\<exists>points. example_points = VectorPartyInput points
                 \<and> VectorPartySlice.DataType points = GeoPoint \<and> BasePtr points \<noteq> None)
       \<or> (\<exists>fv. example_points = ForeignColumnInput fv
                 \<and> ForeignColumnVector.DataType fv = GeoPoint)"
    by (simp_all add: example_buffers_def example_points_def example_slice_def)
  have h8: "?call = (fst ?call, snd ?call)" by simp
  have iv: "map ((!) (buffers.indexVector example_buffers)) [0, 2] = [10, 12]"
    by (simp add: example_buffers_def)
  show ?thesis
    using filter_path_compaction[OF h1 h2 h3 h4 h5 h6 h7 h8]
    unfolding Let_def out ks iv
    by (simp add: numeral_2_eq_2)
qed

text \<open>
  Claim C2. With \<open>n\<close> foreign RecordID vectors (0 to 8), the returned count is the common
  compacted length of the index vector and of each of the \<open>n\<close> foreign vectors, and
  position \<open>j\<close> of each compacted vector holds the element of the same original row
  \<open>survivors ! j\<close>.
\<close>

theorem filter_path_lockstep:
  assumes "0 \<le> indexVectorLength ctx"
    and "nat (indexVectorLength ctx) \<le> length (buffers.indexVector m)"
    and "0 \<le> numForeignTables ctx" and "numForeignTables ctx \<le> 8"
    and "nat (numForeignTables ctx) \<le> length (recordIDVectors m)"
    and "\<forall>c\<in>set (take (nat (numForeignTables ctx)) (recordIDVectors m)).
           nat (indexVectorLength ctx) \<le> length c"
    and "GeoIntersectionContext_run intersect predicateAt ctx input m = (r, m')"
  shows "let predicateBit = predicateAt (outputPredicate m') (TotalWords (geoShapes ctx));
             survivors = filter (\<lambda>i. inOrOut ctx = (\<not> sint (predicateBit i) < 0))
                           [0..<nat (indexVectorLength ctx)]
         in r = Inr (int (length survivors))
          \<and> length survivors \<le> length (buffers.indexVector m')
          \<and> (\<forall>j<length survivors.
                buffers.indexVector m' ! j = buffers.indexVector m ! (survivors ! j))
          \<and> (\<forall>k<nat (numForeignTables ctx).
                length survivors \<le> length (recordIDVectors m' ! k)
              \<and> (\<forall>j<length survivors.
                    recordIDVectors m' ! k ! j = recordIDVectors m ! k ! (survivors ! j)))"
proof -
  let ?m1 = "calculateBatchIntersection intersect (geoShapes ctx) input
               (indexVectorLength ctx) (startCount ctx) (inOrOut ctx) m"
  let ?ks = "filter (\<lambda>i. inOrOut ctx =
                (\<not> sint (predicateAt (outputPredicate ?m1) (TotalWords (geoShapes ctx)) i) < 0))
              [0..<nat (indexVectorLength ctx)]"
  let ?n = "nat (numForeignTables ctx)"
  have run: "r = Inr (int (length ?ks))"
    and m': "m' = ?m1\<lparr>issued := issued ?m1 @ [RemoveIf],
               buffers.indexVector :=
                 map ((!) (buffers.indexVector m)) ?ks @ drop (length ?ks) (buffers.indexVector m),
               recordIDVectors :=
                 map (\<lambda>c. map ((!) c) ?ks @ drop (length ?ks) c) (take ?n (recordIDVectors m))
                 @ drop ?n (recordIDVectors m)\<rparr>"
    using assms(7) unfolding GeoIntersectionContext_run_compacts[OF assms(3,4,2,6)] by auto
  have out: "outputPredicate m' = outputPredicate ?m1" by (simp add: m')
  have len: "length ?ks \<le> nat (indexVectorLength ctx)"
    using length_filter_le[of _ "[0..<nat (indexVectorLength ctx)]"] by simp
  have iv: "buffers.indexVector m' =
              map ((!) (buffers.indexVector m)) ?ks @ drop (length ?ks) (buffers.indexVector m)"
    by (simp add: m')
  have col: "recordIDVectors m' ! k =
               map ((!) (recordIDVectors m ! k)) ?ks @ drop (length ?ks) (recordIDVectors m ! k)"
    if "k < ?n" for k
    using that assms(5) by (simp add: m' nth_append)
  have collen: "nat (indexVectorLength ctx) \<le> length (recordIDVectors m ! k)" if "k < ?n" for k
  proof -
    have "recordIDVectors m ! k \<in> set (take ?n (recordIDVectors m))"
      using that assms(5) by (metis length_take min.absorb2 nth_mem nth_take)
    then show ?thesis using assms(6) by blast
  qed
  show ?thesis
    unfolding Let_def out
    using run len assms(2) collen
    by (auto simp: iv col nth_append)
qed

theorem filter_path_lockstep_witness:
  "fst (GeoIntersectionContext_run (store_words [4, 0, 1]) first_set_bit
          (example_filter_ctx 2 False) example_points example_buffers) = Inr 1
   \<and> buffers.indexVector (snd (GeoIntersectionContext_run (store_words [4, 0, 1])
        first_set_bit (example_filter_ctx 2 False) example_points example_buffers)) ! 0 = 11
   \<and> recordIDVectors (snd (GeoIntersectionContext_run (store_words [4, 0, 1])
        first_set_bit (example_filter_ctx 2 False) example_points example_buffers)) ! 0 ! 0
       = \<lparr>batchID = 0, index = 1\<rparr>
   \<and> recordIDVectors (snd (GeoIntersectionContext_run (store_words [4, 0, 1])
        first_set_bit (example_filter_ctx 2 False) example_points example_buffers)) ! 1 ! 0
       = \<lparr>batchID = 1, index = 6\<rparr>"
proof -
  let ?run = "GeoIntersectionContext_run (store_words [4, 0, 1]) first_set_bit
                (example_filter_ctx 2 False) example_points example_buffers"
  have out: "outputPredicate (snd ?run) = [4, 0, 1]"
    by code_simp
  have ks: "filter (\<lambda>i. inOrOut (example_filter_ctx 2 False) =
                (\<not> sint (first_set_bit [4, 0, 1]
                           (TotalWords (geoShapes (example_filter_ctx 2 False))) i) < 0))
              [0..<nat (indexVectorLength (example_filter_ctx 2 False))] = [1]"
    by code_simp
  have h1: "0 \<le> indexVectorLength (example_filter_ctx 2 False)"
    and h2: "nat (indexVectorLength (example_filter_ctx 2 False))
               \<le> length (buffers.indexVector example_buffers)"
    and h3: "0 \<le> numForeignTables (example_filter_ctx 2 False)"
    and h4: "numForeignTables (example_filter_ctx 2 False) \<le> 8"
    and h5: "nat (numForeignTables (example_filter_ctx 2 False))
               \<le> length (recordIDVectors example_buffers)"
    and h6: "\<forall>c\<in>set (take (nat (numForeignTables (example_filter_ctx 2 False)))
                         (recordIDVectors example_buffers)).
               nat (indexVectorLength (example_filter_ctx 2 False)) \<le> length c"
    by (simp_all add: example_filter_ctx_def example_buffers_def)
  have h7: "?run = (fst ?run, snd ?run)" by simp
  have n: "nat (numForeignTables (example_filter_ctx 2 False)) = 2"
    by (simp add: example_filter_ctx_def)
  have vals: "buffers.indexVector example_buffers ! 1 = 11"
      "recordIDVectors example_buffers ! 0 ! 1 = \<lparr>batchID = 0, index = 1\<rparr>"
      "recordIDVectors example_buffers ! 1 ! 1 = \<lparr>batchID = 1, index = 6\<rparr>"
    by (simp_all add: example_buffers_def)
  have k: "(0::nat) < 2" "(1::nat) < 2" by simp_all
  show ?thesis
    using filter_path_lockstep[OF h1 h2 h3 h4 h5 h6 h7]
    unfolding Let_def out ks n
    using k vals by auto
qed

subsection \<open>The join path\<close>

text \<open>
  Claim C3, as the code has it. The join context runs the geo pass with the polarity
  \<open>True\<close>, then issues the projection, returns 0 and leaves the index vector and the
  foreign vectors as they are. At every row of the range whose predicate value is
  non-negative it writes that predicate value as the dimension value and 1 as the null
  flag; at every other row of the range it leaves both as they were. The dimension
  buffers keep their lengths, and every row at or beyond \<open>indexVectorLength\<close> keeps its
  value and its null flag.
\<close>

theorem join_path_projection:
  assumes "0 \<le> indexVectorLength ctx"
    and "nat (indexVectorLength ctx) \<le> length (DimValues m)"
    and "nat (indexVectorLength ctx) \<le> length (DimNulls m)"
    and "GeoIntersectionJoinContext_run intersect predicateAt ctx input m = (r, m')"
  shows "r = Inr 0
       \<and> outputPredicate m' =
           intersect (geoShapes ctx) input (buffers.indexVector m) (indexVectorLength ctx)
             (startCount ctx) True (outputPredicate m)
       \<and> buffers.indexVector m' = buffers.indexVector m
       \<and> recordIDVectors m' = recordIDVectors m
       \<and> (\<forall>i<nat (indexVectorLength ctx).
             if 0 \<le> sint (predicateAt (outputPredicate m') (TotalWords (geoShapes ctx)) i)
             then DimValues m' ! i = predicateAt (outputPredicate m') (TotalWords (geoShapes ctx)) i
                \<and> DimNulls m' ! i = 1
             else DimValues m' ! i = DimValues m ! i \<and> DimNulls m' ! i = DimNulls m ! i)
       \<and> length (DimValues m') = length (DimValues m)
       \<and> length (DimNulls m') = length (DimNulls m)
       \<and> drop (nat (indexVectorLength ctx)) (DimValues m')
           = drop (nat (indexVectorLength ctx)) (DimValues m)
       \<and> drop (nat (indexVectorLength ctx)) (DimNulls m')
           = drop (nat (indexVectorLength ctx)) (DimNulls m)
       \<and> issued m' = issued m @ [ForEachGeoIntersect, TransformIf]"
proof -
  let ?m1 = "calculateBatchIntersection intersect (geoShapes ctx) input
               (indexVectorLength ctx) (startCount ctx) True m"
  let ?p = "predicateAt (outputPredicate ?m1) (TotalWords (geoShapes ctx))"
  let ?m0 = "?m1\<lparr>issued := issued ?m1 @ [TransformIf]\<rparr>"
  let ?L = "nat (indexVectorLength ctx)"
  have r: "r = Inr 0"
    and m': "m' = transform_if_loop ?p 0 ?L ?m0"
    using assms(4) by (simp_all add: GeoIntersectionJoinContext_run_def Let_def)
  have out: "outputPredicate m' = outputPredicate ?m1"
    and iv: "buffers.indexVector m' = buffers.indexVector m"
    and cols: "recordIDVectors m' = recordIDVectors m"
    and iss: "issued m' = issued m @ [ForEachGeoIntersect, TransformIf]"
    and dv: "DimValues m' =
               map (\<lambda>j. if 0 \<le> j \<and> j < ?L \<and> 0 \<le> sint (?p j)
                         then ?p j else DimValues m ! j) [0..<length (DimValues m)]"
    and dn: "DimNulls m' =
               map (\<lambda>j. if 0 \<le> j \<and> j < ?L \<and> 0 \<le> sint (?p j)
                         then 1 else DimNulls m ! j) [0..<length (DimNulls m)]"
    unfolding m' transform_if_loop_spec
    by (simp_all add: calculateBatchIntersection_def)
  have o1: "outputPredicate ?m1 =
              intersect (geoShapes ctx) input (buffers.indexVector m) (indexVectorLength ctx)
                (startCount ctx) True (outputPredicate m)"
    by (simp add: calculateBatchIntersection_def)
  have rows: "if 0 \<le> sint (?p i)
              then DimValues m' ! i = ?p i \<and> DimNulls m' ! i = 1
              else DimValues m' ! i = DimValues m ! i \<and> DimNulls m' ! i = DimNulls m ! i"
    if "i < ?L" for i
  proof -
    have "i < length (DimValues m)" "i < length (DimNulls m)"
      using that assms(2,3) by simp_all
    then show ?thesis using that by (simp add: dv dn)
  qed
  have lv: "length (DimValues m') = length (DimValues m)"
    and ln: "length (DimNulls m') = length (DimNulls m)"
    by (simp_all add: dv dn)
  have fv: "drop ?L (DimValues m') = drop ?L (DimValues m)"
  proof (rule nth_equalityI)
    show "length (drop ?L (DimValues m')) = length (drop ?L (DimValues m))"
      by (simp add: lv)
  next
    fix i assume "i < length (drop ?L (DimValues m'))"
    then have "?L + i < length (DimValues m)" by (simp add: lv)
    then show "drop ?L (DimValues m') ! i = drop ?L (DimValues m) ! i"
      by (simp add: dv)
  qed
  have fn: "drop ?L (DimNulls m') = drop ?L (DimNulls m)"
  proof (rule nth_equalityI)
    show "length (drop ?L (DimNulls m')) = length (drop ?L (DimNulls m))"
      by (simp add: ln)
  next
    fix i assume "i < length (drop ?L (DimNulls m'))"
    then have "?L + i < length (DimNulls m)" by (simp add: ln)
    then show "drop ?L (DimNulls m') ! i = drop ?L (DimNulls m) ! i"
      by (simp add: dn)
  qed
  show ?thesis
    unfolding out
    using r o1 iv cols rows lv ln fv fn iss by simp
qed

theorem join_path_projection_witness:
  "fst (GeoIntersectionJoinContext_run (store_words [4, 0, 1]) first_set_bit
          example_join_ctx_two_rows example_points example_buffers) = Inr 0
   \<and> DimValues (snd (GeoIntersectionJoinContext_run (store_words [4, 0, 1]) first_set_bit
         example_join_ctx_two_rows example_points example_buffers)) ! 0 = 2
   \<and> DimNulls (snd (GeoIntersectionJoinContext_run (store_words [4, 0, 1]) first_set_bit
         example_join_ctx_two_rows example_points example_buffers)) ! 0 = 1
   \<and> DimValues (snd (GeoIntersectionJoinContext_run (store_words [4, 0, 1]) first_set_bit
         example_join_ctx_two_rows example_points example_buffers)) ! 1 = 9
   \<and> DimNulls (snd (GeoIntersectionJoinContext_run (store_words [4, 0, 1]) first_set_bit
         example_join_ctx_two_rows example_points example_buffers)) ! 1 = 0
   \<and> length (DimValues (snd (GeoIntersectionJoinContext_run (store_words [4, 0, 1])
         first_set_bit example_join_ctx_two_rows example_points example_buffers))) = 3
   \<and> length (DimNulls (snd (GeoIntersectionJoinContext_run (store_words [4, 0, 1])
         first_set_bit example_join_ctx_two_rows example_points example_buffers))) = 3
   \<and> drop 2 (DimValues (snd (GeoIntersectionJoinContext_run (store_words [4, 0, 1])
         first_set_bit example_join_ctx_two_rows example_points example_buffers))) = [9]
   \<and> drop 2 (DimNulls (snd (GeoIntersectionJoinContext_run (store_words [4, 0, 1])
         first_set_bit example_join_ctx_two_rows example_points example_buffers))) = [0]"
proof -
  let ?run = "GeoIntersectionJoinContext_run (store_words [4, 0, 1]) first_set_bit
                example_join_ctx_two_rows example_points example_buffers"
  let ?L = "nat (indexVectorLength example_join_ctx_two_rows)"
  have L: "?L = 2" by (simp add: example_join_ctx_two_rows_def)
  have h1: "0 \<le> indexVectorLength example_join_ctx_two_rows"
    and h2: "?L \<le> length (DimValues example_buffers)"
    and h3: "?L \<le> length (DimNulls example_buffers)"
    by (simp_all add: example_join_ctx_two_rows_def example_buffers_def)
  have h4: "?run = (fst ?run, snd ?run)" by simp
  have out: "store_words [4, 0, 1] (geoShapes example_join_ctx_two_rows) example_points
               (buffers.indexVector example_buffers)
               (indexVectorLength example_join_ctx_two_rows)
               (startCount example_join_ctx_two_rows) True (outputPredicate example_buffers)
             = [4, 0, 1]"
    by (simp add: store_words_def)
  have p: "first_set_bit [4, 0, 1] (TotalWords (geoShapes example_join_ctx_two_rows)) 0 = 2"
      "first_set_bit [4, 0, 1] (TotalWords (geoShapes example_join_ctx_two_rows)) 1 = - 1"
    by code_simp+
  have old: "DimValues example_buffers ! 1 = 9" "DimNulls example_buffers ! 1 = 0"
      "length (DimValues example_buffers) = 3" "length (DimNulls example_buffers) = 3"
      "drop 2 (DimValues example_buffers) = [9]" "drop 2 (DimNulls example_buffers) = [0]"
    by (simp_all add: example_buffers_def)
  have k: "(0::nat) < ?L" "(1::nat) < ?L"
    by (simp_all add: L)
  from join_path_projection[OF h1 h2 h3 h4]
  have r: "fst ?run = Inr 0"
    and o: "outputPredicate (snd ?run) = [4, 0, 1]"
    and rows: "\<forall>i<?L.
             if 0 \<le> sint (first_set_bit (outputPredicate (snd ?run))
                              (TotalWords (geoShapes example_join_ctx_two_rows)) i)
             then DimValues (snd ?run) ! i =
                    first_set_bit (outputPredicate (snd ?run))
                      (TotalWords (geoShapes example_join_ctx_two_rows)) i
                \<and> DimNulls (snd ?run) ! i = 1
             else DimValues (snd ?run) ! i = DimValues example_buffers ! i
                \<and> DimNulls (snd ?run) ! i = DimNulls example_buffers ! i"
    and lv: "length (DimValues (snd ?run)) = length (DimValues example_buffers)"
    and ln: "length (DimNulls (snd ?run)) = length (DimNulls example_buffers)"
    and fv: "drop ?L (DimValues (snd ?run)) = drop ?L (DimValues example_buffers)"
    and fn: "drop ?L (DimNulls (snd ?run)) = drop ?L (DimNulls example_buffers)"
    unfolding out by blast+
  from rows[rule_format, OF k(1)] rows[rule_format, OF k(2)] r lv ln fv fn
  show ?thesis
    unfolding o p old L by simp
qed

text \<open>
  Claim C3 as stated says the dimension value written is a boolean (1 or 0). On the
  example, row 0 has the predicate value 2 (non-negative), and the dimension value
  written at row 0 is 2.
\<close>

theorem join_path_writes_predicate_value:
  "0 \<le> sint (first_set_bit
       (outputPredicate (snd (GeoIntersectionJoinContext_run (store_words [4, 0, 1])
          first_set_bit example_join_ctx example_points example_buffers)))
       (TotalWords (geoShapes example_join_ctx)) 0)
   \<and> DimValues (snd (GeoIntersectionJoinContext_run (store_words [4, 0, 1]) first_set_bit
         example_join_ctx example_points example_buffers)) ! 0 = 2
   \<and> DimValues (snd (GeoIntersectionJoinContext_run (store_words [4, 0, 1]) first_set_bit
         example_join_ctx example_points example_buffers)) ! 0 \<notin> {0, 1}"
  by code_simp

subsection \<open>More than eight foreign tables\<close>

lemma GeoIntersectionContext_run_unsupported:
  assumes "numForeignTables ctx < 0 \<or> 8 < numForeignTables ctx"
  shows "GeoIntersectionContext_run intersect predicateAt ctx input m =
           (Inl (InvalidArgument ''only support up to 8 foreign tables''),
            calculateBatchIntersection intersect (geoShapes ctx) input
              (indexVectorLength ctx) (startCount ctx) (inOrOut ctx) m)"
  using assms by (auto simp: GeoIntersectionContext_run_dispatch Let_def)

text \<open>
  Claim C4, as the code has it. A call of \<open>GeoBatchIntersects\<close> with more than 8 foreign
  tables leaves the index vector and the foreign RecordID vectors unmodified. When the
  input reaches \<open>run\<close> (a \<open>GeoPoint\<close> direct input with a non-null \<open>BasePtr\<close>, or a
  \<open>GeoPoint\<close> foreign input) the envelope holds the message "only support up to 8
  foreign tables" and no row count; a \<open>GeoPoint\<close> direct input with a null \<open>BasePtr\<close>
  returns the row count 0 with no exception; every other input gives an error in the
  envelope.
\<close>

theorem GeoBatchIntersects_too_many_foreign_tables:
  assumes "8 < nForeign"
    and "GeoBatchIntersects intersect predicateAt cudaError shapes input len start nForeign io m
           = (h, m')"
  shows "buffers.indexVector m' = buffers.indexVector m
       \<and> recordIDVectors m' = recordIDVectors m
       \<and> ((\<exists>points. input = VectorPartyInput points
                    \<and> VectorPartySlice.DataType points = GeoPoint \<and> BasePtr points \<noteq> None)
           \<or> (\<exists>fv. input = ForeignColumnInput fv \<and> ForeignColumnVector.DataType fv = GeoPoint)
          \<longrightarrow> h = \<lparr>res = 0, pStrErr = Some ''only support up to 8 foreign tables''\<rparr>)
       \<and> ((\<exists>points. input = VectorPartyInput points
                    \<and> VectorPartySlice.DataType points = GeoPoint \<and> BasePtr points = None)
          \<longrightarrow> h = \<lparr>res = 0, pStrErr = cudaError\<rparr>)
       \<and> (\<not> (\<exists>points. input = VectorPartyInput points
                    \<and> VectorPartySlice.DataType points = GeoPoint \<and> BasePtr points = None)
          \<longrightarrow> res h = 0 \<and> pStrErr h \<noteq> None)"
proof -
  let ?ctx = "\<lparr>geoShapes = shapes, indexVectorLength = len, startCount = start,
               numForeignTables = nForeign, inOrOut = io\<rparr>"
  have run: "GeoIntersectionContext_run intersect predicateAt ?ctx i b =
           (Inl (InvalidArgument ''only support up to 8 foreign tables''),
            calculateBatchIntersection intersect shapes i len start io b)" for i b
    using GeoIntersectionContext_run_unsupported[of ?ctx intersect predicateAt i b] assms(1)
    by simp
  show ?thesis
  proof (cases input)
    case (VectorPartyInput points)
    then show ?thesis
      using assms(2)
      by (auto simp: GeoBatchIntersects_def run calculateBatchIntersection_def
               split: if_splits option.splits)
  next
    case (ForeignColumnInput fv)
    then show ?thesis
      using assms(2)
      by (auto simp: GeoBatchIntersects_def run calculateBatchIntersection_def
               split: if_splits option.splits)
  next
    case (OtherInput t)
    then show ?thesis
      using assms(2) by (auto simp: GeoBatchIntersects_def)
  qed
qed

theorem GeoBatchIntersects_too_many_foreign_tables_witness:
  "GeoBatchIntersects (store_words [4, 0, 1]) first_set_bit None example_shapes
     (ForeignColumnInput (example_foreign GeoPoint)) 3 0 9 True example_buffers
   = (\<lparr>res = 0, pStrErr = Some ''only support up to 8 foreign tables''\<rparr>,
      snd (GeoBatchIntersects (store_words [4, 0, 1]) first_set_bit None example_shapes
             (ForeignColumnInput (example_foreign GeoPoint)) 3 0 9 True example_buffers))
   \<and> buffers.indexVector (snd (GeoBatchIntersects (store_words [4, 0, 1]) first_set_bit None
        example_shapes (ForeignColumnInput (example_foreign GeoPoint)) 3 0 9 True
        example_buffers)) = [10, 11, 12]
   \<and> recordIDVectors (snd (GeoBatchIntersects (store_words [4, 0, 1]) first_set_bit None
        example_shapes (ForeignColumnInput (example_foreign GeoPoint)) 3 0 9 True
        example_buffers)) = recordIDVectors example_buffers"
proof -
  let ?call = "GeoBatchIntersects (store_words [4, 0, 1]) first_set_bit None example_shapes
                 (ForeignColumnInput (example_foreign GeoPoint)) 3 0 9 True example_buffers"
  have h1: "(8::int) < 9" by simp
  have h2: "?call = (fst ?call, snd ?call)" by simp
  have ty: "ForeignColumnVector.DataType (example_foreign GeoPoint) = GeoPoint"
    by (simp add: example_foreign_def)
  have iv: "buffers.indexVector example_buffers = [10, 11, 12]"
    by (simp add: example_buffers_def)
  show ?thesis
    using GeoBatchIntersects_too_many_foreign_tables[OF h1 h2] ty
    by (simp add: iv prod_eq_iff)
qed

text \<open>
  Claim C4 as stated covers every call with more than 8 foreign tables. With 9 foreign
  tables and a \<open>GeoPoint\<close> direct input whose \<open>BasePtr\<close> is null, the call returns the row
  count 0 and no error.
\<close>

theorem GeoBatchIntersects_nine_tables_null_base_no_error:
  "GeoBatchIntersects (store_words [4, 0, 1]) first_set_bit None example_shapes
     (VectorPartyInput (example_slice None GeoPoint)) 3 0 9 True example_buffers
   = (\<lparr>res = 0, pStrErr = None\<rparr>, example_buffers)"
  by (simp add: GeoBatchIntersects_def example_slice_def)

subsection \<open>Errors and the calls issued before them\<close>







subsection \<open>Binding errors and the empty-column short-circuit\<close>

text \<open>
  Claim C7. A direct or foreign geo input whose declared data type is not \<open>GeoPoint\<close>
  makes \<open>bind\<close> throw \<open>std::invalid_argument\<close>, whatever the context; both entry
  points return the message in the error slot, and no buffer (the index vector among them)
  has changed and no pass has been issued.
\<close>

theorem bind_non_geo_point_invalid_argument:
  assumes "(\<exists>points. input = VectorPartyInput points \<and> VectorPartySlice.DataType points \<noteq> GeoPoint)
         \<or> (\<exists>fv. input = ForeignColumnInput fv \<and> ForeignColumnVector.DataType fv \<noteq> GeoPoint)"
  shows "bind run input m =
           (Inl (InvalidArgument ''only geo point column are allowed in geo_intersects''), m)
       \<and> GeoBatchIntersects intersect predicateAt cudaError shapes input len start nForeign io m =
           (\<lparr>res = 0, pStrErr = Some ''only geo point column are allowed in geo_intersects''\<rparr>, m)
       \<and> GeoBatchIntersectsJoin intersect predicateAt cudaError shapes input len start m =
           (\<lparr>res = 0, pStrErr = Some ''only geo point column are allowed in geo_intersects''\<rparr>, m)"
  using assms
  by (auto simp: GeoBatchIntersects_def GeoBatchIntersectsJoin_def)

theorem bind_non_geo_point_invalid_argument_witness:
  "bind (example_filter_run 2) (ForeignColumnInput (example_foreign Int32)) example_buffers =
     (Inl (InvalidArgument ''only geo point column are allowed in geo_intersects''), example_buffers)
   \<and> GeoBatchIntersects (store_words [4, 0, 1]) first_set_bit None example_shapes
        (ForeignColumnInput (example_foreign Int32)) 3 0 2 True example_buffers =
     (\<lparr>res = 0, pStrErr = Some ''only geo point column are allowed in geo_intersects''\<rparr>,
      example_buffers)
   \<and> GeoBatchIntersectsJoin (store_words [4, 0, 1]) first_set_bit None example_shapes
        (ForeignColumnInput (example_foreign Int32)) 3 0 example_buffers =
     (\<lparr>res = 0, pStrErr = Some ''only geo point column are allowed in geo_intersects''\<rparr>,
      example_buffers)"
  using bind_non_geo_point_invalid_argument
    [of "ForeignColumnInput (example_foreign Int32)" "example_filter_run 2" example_buffers
        "store_words [4, 0, 1]" first_set_bit None example_shapes 3 0 2 True]
  by (simp add: example_foreign_def)

text \<open>
  Claim C8. For a direct input of type \<open>GeoPoint\<close> whose \<open>BasePtr\<close> is null, \<open>bind\<close>
  returns 0 without calling \<open>run\<close>: no buffer has changed, no pass has been issued and
  \<open>bind\<close> throws nothing (the error slot of the entry points holds only what
  \<open>CheckCUDAError\<close> reports).
\<close>

theorem bind_null_base_returns_zero:
  assumes "VectorPartySlice.DataType points = GeoPoint" and "BasePtr points = None"
  shows "bind run (VectorPartyInput points) m = (Inr 0, m)
       \<and> GeoBatchIntersects intersect predicateAt cudaError shapes (VectorPartyInput points)
           len start nForeign io m = (\<lparr>res = 0, pStrErr = cudaError\<rparr>, m)
       \<and> GeoBatchIntersectsJoin intersect predicateAt cudaError shapes (VectorPartyInput points)
           len start m = (\<lparr>res = 0, pStrErr = cudaError\<rparr>, m)"
  using assms
  by (auto simp: GeoBatchIntersects_def GeoBatchIntersectsJoin_def split: option.splits)

theorem bind_null_base_returns_zero_witness:
  "bind (example_filter_run 2) (VectorPartyInput (example_slice None GeoPoint)) example_buffers =
     (Inr 0, example_buffers)
   \<and> GeoBatchIntersects (store_words [4, 0, 1]) first_set_bit None example_shapes
        (VectorPartyInput (example_slice None GeoPoint)) 3 0 2 True example_buffers =
     (\<lparr>res = 0, pStrErr = None\<rparr>, example_buffers)
   \<and> GeoBatchIntersectsJoin (store_words [4, 0, 1]) first_set_bit None example_shapes
        (VectorPartyInput (example_slice None GeoPoint)) 3 0 example_buffers =
     (\<lparr>res = 0, pStrErr = None\<rparr>, example_buffers)"
  using bind_null_base_returns_zero
    [of "example_slice None GeoPoint" "example_filter_run 2" example_buffers
        "store_words [4, 0, 1]" first_set_bit None example_shapes 3 0 2 True]
  by (simp add: example_slice_def)

text \<open>
  Claim C10. The data type is checked before the null \<open>BasePtr\<close>: a direct input with a
  null \<open>BasePtr\<close> whose type is not \<open>GeoPoint\<close> throws, and with a null \<open>BasePtr\<close> the
  zero-row return happens exactly for the type \<open>GeoPoint\<close>.
\<close>

theorem bind_type_check_before_null_check:
  assumes "BasePtr points = None"
  shows "(VectorPartySlice.DataType points \<noteq> GeoPoint \<longrightarrow>
            bind run (VectorPartyInput points) m =
              (Inl (InvalidArgument ''only geo point column are allowed in geo_intersects''), m))
       \<and> (bind run (VectorPartyInput points) m = (Inr 0, m) \<longleftrightarrow>
            VectorPartySlice.DataType points = GeoPoint)"
  using assms by simp

theorem bind_type_check_before_null_check_witness:
  "bind (example_filter_run 0) (VectorPartyInput (example_slice None Float64)) example_buffers =
     (Inl (InvalidArgument ''only geo point column are allowed in geo_intersects''),
      example_buffers)
   \<and> bind (example_filter_run 0) (VectorPartyInput (example_slice None Float64)) example_buffers
       \<noteq> (Inr 0, example_buffers)"
  using bind_type_check_before_null_check
    [of "example_slice None Float64" "example_filter_run 0" example_buffers]
  by (simp add: example_slice_def)

subsection \<open>Measure output dispatch\<close>

text \<open>
  Claim C6. For each of the five data types Int32, Uint32, Float32, Int64 and Float64,
  \<open>transformMeasureOutput\<close> hands the measure output iterator of the matching element
  type to \<open>transform\<close> and returns what \<open>transform\<close> does; for every other data type it
  throws \<open>std::invalid_argument\<close> with the message "Unsupported data type for
  MeasureOutput". The template argument \<open>NInput\<close> is arbitrary, so this holds of both
  instantiations.
\<close>

theorem transformMeasureOutput_type_coverage:
  "(MeasureOutputVector.DataType output = Int32 \<longrightarrow> transformMeasureOutput b transform output =
      Inr (transform (make_measure_output_iterator int32_t (Values output)
             (OutputVectorBinder.indexVector b) (baseCounts b) (AggFunc output))))
 \<and> (MeasureOutputVector.DataType output = Uint32 \<longrightarrow> transformMeasureOutput b transform output =
      Inr (transform (make_measure_output_iterator uint32_t (Values output)
             (OutputVectorBinder.indexVector b) (baseCounts b) (AggFunc output))))
 \<and> (MeasureOutputVector.DataType output = Float32 \<longrightarrow> transformMeasureOutput b transform output =
      Inr (transform (make_measure_output_iterator float_t (Values output)
             (OutputVectorBinder.indexVector b) (baseCounts b) (AggFunc output))))
 \<and> (MeasureOutputVector.DataType output = Int64 \<longrightarrow> transformMeasureOutput b transform output =
      Inr (transform (make_measure_output_iterator int64_t (Values output)
             (OutputVectorBinder.indexVector b) (baseCounts b) (AggFunc output))))
 \<and> (MeasureOutputVector.DataType output = Float64 \<longrightarrow> transformMeasureOutput b transform output =
      Inr (transform (make_measure_output_iterator double_t (Values output)
             (OutputVectorBinder.indexVector b) (baseCounts b) (AggFunc output))))
 \<and> (MeasureOutputVector.DataType output \<notin> {Int32, Uint32, Float32, Int64, Float64} \<longrightarrow>
      transformMeasureOutput b transform output =
        Inl (InvalidArgument ''Unsupported data type for MeasureOutput''))"
  by (cases "MeasureOutputVector.DataType output") (simp_all add: transformMeasureOutput_def)

theorem transformMeasureOutput_type_coverage_witness:
  "transformMeasureOutput \<lparr>NInput = 1, indexVector = [0, 1], baseCounts = []\<rparr> id
     \<lparr>Values = [0, 0, 0, 0], DataType = Int32, AggFunc = 1\<rparr> =
     Inr (make_measure_output_iterator int32_t [0, 0, 0, 0] [0, 1] [] 1)
   \<and> transformMeasureOutput \<lparr>NInput = 2, indexVector = [0, 1], baseCounts = []\<rparr> id
     \<lparr>Values = [0, 0, 0, 0], DataType = GeoPoint, AggFunc = 1\<rparr> =
     Inl (InvalidArgument ''Unsupported data type for MeasureOutput'')"
  using transformMeasureOutput_type_coverage
      [of "\<lparr>Values = [0, 0, 0, 0], DataType = Int32, AggFunc = 1\<rparr>"
          "\<lparr>NInput = 1, indexVector = [0, 1], baseCounts = []\<rparr>" id]
    transformMeasureOutput_type_coverage
      [of "\<lparr>Values = [0, 0, 0, 0], DataType = GeoPoint, AggFunc = 1\<rparr>"
          "\<lparr>NInput = 2, indexVector = [0, 1], baseCounts = []\<rparr>" id]
  by simp

end
